theory Spec2Isabelle
  imports Complex_Main "HOL-Library.Word"
begin

unbundle bit_operations_syntax

section \<open>Node buffers\<close>

text \<open>
  A Node \<open>Buffer\<close> is a sequence of bytes. \<open>Buffer.from(number[])\<close> keeps the low
  eight bits of every entry. \<open>buf.readUInt8(offset)\<close> returns the byte at \<open>offset\<close> and
  throws a \<open>RangeError\<close> when the offset is not below the length of the buffer.
  \<open>buf.toString('hex')\<close> writes every byte as two lower-case hexadecimal digits.
\<close>

type_synonym u8 = "8 word"
type_synonym buffer = "u8 list"

text \<open>
  The exceptions this code can raise: an \<open>Error\<close> it builds with a message, the
  \<open>RangeError\<close> of an out-of-range buffer read, and the \<open>TypeError\<close> of a property
  write on \<open>null\<close> or \<open>undefined\<close>.
\<close>

datatype exn = Error string | RangeError | TypeError

definition Buffer_from :: "int list \<Rightarrow> buffer" where
  "Buffer_from bytes = map word_of_int bytes"

definition readUInt8 :: "buffer \<Rightarrow> nat \<Rightarrow> exn + u8" where
  "readUInt8 buf offset = (if offset < length buf then Inr (buf ! offset) else Inl RangeError)"

definition hex_digit :: "nat \<Rightarrow> char" where
  "hex_digit n = ''0123456789abcdef'' ! (n mod 16)"

definition hex_byte :: "u8 \<Rightarrow> string" where
  "hex_byte b = [hex_digit (unat b div 16), hex_digit (unat b mod 16)]"

definition toString_hex :: "buffer \<Rightarrow> string" where
  "toString_hex buf = concat (map hex_byte buf)"

text \<open>
  Reading a hexadecimal string back into bytes: the inverse against which the encoding
  of \<open>toString_hex\<close> is stated to lose nothing.
\<close>

definition hex_value :: "char \<Rightarrow> nat" where
  "hex_value c = (if of_char c < (58::nat) then of_char c - 48 else of_char c - 87)"

fun parse_hex :: "string \<Rightarrow> buffer" where
  "parse_hex (h # l # cs) = of_nat (16 * hex_value h + hex_value l) # parse_hex cs"
| "parse_hex _ = []"

text \<open>Decimal digits of a natural number, as a template literal prints a length.\<close>

fun digits :: "nat \<Rightarrow> string" where
  "digits n = (if n < 10 then [''0123456789'' ! n]
               else digits (n div 10) @ [''0123456789'' ! (n mod 10)])"

declare digits.simps [simp del]

section \<open>WoHumi: decoding the advertisement\<close>

record humi_data =
  model :: string
  modelName :: string
  onState :: bool
  autoMode :: bool
  percentage :: nat

text \<open>
  One run of \<open>WoHumi.parseServiceData(buf, onlog)\<close>: the messages handed to \<open>onlog\<close>,
  the offsets handed to \<open>readUInt8\<close> in order, and what the call returned
  (\<open>Inr None\<close> is the \<open>null\<close> return, \<open>Inl\<close> an exception that left the function).
  The argument \<open>onlog\<close> of the model says whether a function was supplied.
\<close>

record parse_run =
  logged :: "string list"
  offsets_read :: "nat list"
  returned :: "exn + humi_data option"

definition parseServiceData :: "buffer \<Rightarrow> bool \<Rightarrow> parse_run" where
  "parseServiceData buf onlog =
    (if length buf \<noteq> 8 then
       \<lparr>logged = (if onlog
                   then [''[parseServiceDataForWoHumi] Buffer length '' @ digits (length buf) @ '' !== 8!'']
                   else []),
        offsets_read = [],
        returned = Inr None\<rparr>
     else
       (case readUInt8 buf 1 of
          Inl e \<Rightarrow> \<lparr>logged = [], offsets_read = [1], returned = Inl e\<rparr>
        | Inr byte1 \<Rightarrow>
          (case readUInt8 buf 4 of
             Inl e \<Rightarrow> \<lparr>logged = [], offsets_read = [1, 4], returned = Inl e\<rparr>
           | Inr byte4 \<Rightarrow>
             (let onState = (byte1 AND 0x80 \<noteq> 0);
                  autoMode = (byte4 AND 0x80 \<noteq> 0);
                  percentage = unat (byte4 AND 0x7F);
                  data = \<lparr>model = ''e'',
                          modelName = ''WoHumi'',
                          onState = onState,
                          autoMode = autoMode,
                          percentage = (if autoMode then 0 else percentage)\<rparr>
              in \<lparr>logged = [], offsets_read = [1, 4], returned = Inr (Some data)\<rparr>))))"

section \<open>WoHumi: the command exchange\<close>

text \<open>
  \<open>_operateBot(bytes)\<close> builds a promise whose executor calls \<open>this._command(req_buf)\<close>
  and attaches a \<open>then\<close> and a \<open>catch\<close> callback. \<open>_command\<close> is declared in
  \<open>device.ts\<close>; the model takes the promise it returns as the parameter \<open>command\<close>,
  by what becomes of it: \<open>Pending\<close> when it never settles, \<open>Rejected e\<close> when it rejects
  with \<open>e\<close>, \<open>Fulfilled res_buf\<close> when it fulfils with the response buffer.
  \<open>_operateBot\<close> sets no timer of its own.

  A rejection carries an exception raised by this code or a value \<open>'x\<close> that the
  collaborator produced.

  The model records every call the callbacks make to \<open>resolve\<close> and \<open>reject\<close>, in
  order. A promise takes the first such call as its outcome and ignores the later ones.
\<close>

datatype 'x reason = Raised exn | Foreign 'x

datatype 'x promise = Pending | Rejected "'x reason" | Fulfilled buffer

datatype 'x settle = Resolve | Reject "'x reason"

text \<open>
  The \<open>then\<close> callback: the calls it makes, and the exception it throws, if any.
\<close>

definition operateBot_then :: "buffer \<Rightarrow> 'x settle list \<times> exn option" where
  "operateBot_then res_buf =
    (case readUInt8 res_buf 0 of
       Inl e \<Rightarrow> ([], Some e)
     | Inr code \<Rightarrow>
         if length res_buf = 3 \<and> (code = 0x01 \<or> code = 0x05)
         then ([Resolve], None)
         else ([Reject (Raised (Error (''The device returned an error: 0x'' @ toString_hex res_buf)))],
               None))"

definition operateBot_catch :: "'x reason \<Rightarrow> 'x settle list" where
  "operateBot_catch error = [Reject error]"

text \<open>
  \<open>p.then(f).catch(g)\<close>: while \<open>p\<close> is pending no callback runs; when \<open>p\<close> rejects,
  \<open>g\<close> runs on the reason; when \<open>p\<close> fulfils, \<open>f\<close> runs on the value, and \<open>g\<close> runs
  on what \<open>f\<close> throws.
\<close>

definition operateBot_calls :: "int list \<Rightarrow> (buffer \<Rightarrow> 'x promise) \<Rightarrow> 'x settle list" where
  "operateBot_calls bytes command =
    (let req_buf = Buffer_from bytes in
     case command req_buf of
       Pending \<Rightarrow> []
     | Rejected error \<Rightarrow> operateBot_catch error
     | Fulfilled res_buf \<Rightarrow>
         (case operateBot_then res_buf of
            (calls, None) \<Rightarrow> calls
          | (calls, Some e) \<Rightarrow> calls @ operateBot_catch (Raised e)))"

text \<open>The outcome of the promise: its first settling call; \<open>None\<close> is a promise left pending.\<close>

definition operateBot :: "int list \<Rightarrow> (buffer \<Rightarrow> 'x promise) \<Rightarrow> 'x settle option" where
  "operateBot bytes command =
    (case operateBot_calls bytes command of [] \<Rightarrow> None | c # _ \<Rightarrow> Some c)"

definition press :: "(buffer \<Rightarrow> 'x promise) \<Rightarrow> 'x settle option" where
  "press command = operateBot [0x57, 0x01, 0x00] command"

definition turnOn :: "(buffer \<Rightarrow> 'x promise) \<Rightarrow> 'x settle option" where
  "turnOn command = operateBot [0x57, 0x01, 0x01] command"

definition turnOff :: "(buffer \<Rightarrow> 'x promise) \<Rightarrow> 'x settle option" where
  "turnOff command = operateBot [0x57, 0x01, 0x02] command"

definition down :: "(buffer \<Rightarrow> 'x promise) \<Rightarrow> 'x settle option" where
  "down command = operateBot [0x57, 0x01, 0x03] command"

definition up :: "(buffer \<Rightarrow> 'x promise) \<Rightarrow> 'x settle option" where
  "up command = operateBot [0x57, 0x01, 0x04] command"


section \<open>Parameter checker: JavaScript values\<close>

text \<open>
  A JavaScript number is a double. The checker compares numbers, takes the remainder by
  one and tests strict equality; all three are exact on doubles, so a finite double is
  modelled by its rational value (the two zeros coincide: no operation used here tells
  them apart), next to the two infinities and \<open>NaN\<close>.
\<close>

datatype jsnum = Fin rat | PosInf | NegInf | NaN

text \<open>A JavaScript string is a sequence of UTF-16 code units.\<close>

type_synonym jsstring = "16 word list"

text \<open>
  Values. \<open>JObj own inherited\<close> is an object: its own properties, and the properties it
  inherits along its prototype chain, nearest first; a property stands for the value a
  read of it yields. \<open>JFun\<close> is a function, \<open>JSymbol\<close> a symbol. Values are finite
  trees: a cyclic array or object appears with its back references cut. The checker
  looks at a value through \<open>typeof\<close>, \<open>Array.isArray\<close>, \<open>length\<close> and strict equality
  with a number or a string, none of which follows a reference into an array or an
  object; \<open>JSON.stringify\<close> does, and is a parameter of the methods that call it.
\<close>

datatype jsval =
    Undefined
  | Null
  | JBool bool
  | JNum jsnum
  | JBigInt int
  | JStr jsstring
  | JSymbol
  | JArr "jsval list"
  | JObj "(string \<times> jsval) list" "(string \<times> jsval) list"
  | JFun

text \<open>
  What every object created by an object literal inherits from \<open>Object.prototype\<close>:
  eleven functions, and \<open>__proto__\<close>, which reads as \<open>Object.prototype\<close> itself.
\<close>

definition Object_prototype_functions :: "(string \<times> jsval) list" where
  "Object_prototype_functions =
     map (\<lambda>k. (k, JFun))
       [''constructor'', ''__defineGetter__'', ''__defineSetter__'', ''hasOwnProperty'',
        ''__lookupGetter__'', ''__lookupSetter__'', ''isPrototypeOf'',
        ''propertyIsEnumerable'', ''toString'', ''valueOf'', ''toLocaleString'']"

definition Object_prototype :: "(string \<times> jsval) list" where
  "Object_prototype =
     Object_prototype_functions @
     [(''__proto__'', JObj (Object_prototype_functions @ [(''__proto__'', Null)]) [])]"

text \<open>The object literal with the given properties.\<close>

definition object_literal :: "(string \<times> jsval) list \<Rightarrow> jsval" where
  "object_literal props = JObj props Object_prototype"

fun typeof :: "jsval \<Rightarrow> string" where
  "typeof Undefined = ''undefined''"
| "typeof Null = ''object''"
| "typeof (JBool _) = ''boolean''"
| "typeof (JNum _) = ''number''"
| "typeof (JBigInt _) = ''bigint''"
| "typeof (JStr _) = ''string''"
| "typeof JSymbol = ''symbol''"
| "typeof (JArr _) = ''object''"
| "typeof (JObj _ _) = ''object''"
| "typeof JFun = ''function''"

fun Array_isArray :: "jsval \<Rightarrow> bool" where
  "Array_isArray (JArr _) = True"
| "Array_isArray _ = False"

text \<open>\<open>!v\<close> is true exactly on the falsy values.\<close>

fun truthy :: "jsval \<Rightarrow> bool" where
  "truthy Undefined = False"
| "truthy Null = False"
| "truthy (JBool b) = b"
| "truthy (JNum x) = (x \<noteq> NaN \<and> x \<noteq> Fin 0)"
| "truthy (JBigInt n) = (n \<noteq> 0)"
| "truthy (JStr s) = (s \<noteq> [])"
| "truthy JSymbol = True"
| "truthy (JArr _) = True"
| "truthy (JObj _ _) = True"
| "truthy JFun = True"

text \<open>\<open>a < b\<close> on numbers: false as soon as one side is \<open>NaN\<close>.\<close>

fun js_lt :: "jsnum \<Rightarrow> jsnum \<Rightarrow> bool" where
  "js_lt (Fin a) (Fin b) = (a < b)"
| "js_lt (Fin _) PosInf = True"
| "js_lt NegInf (Fin _) = True"
| "js_lt NegInf PosInf = True"
| "js_lt _ _ = False"

definition js_gt :: "jsnum \<Rightarrow> jsnum \<Rightarrow> bool" where
  "js_gt a b = js_lt b a"

text \<open>\<open>a === b\<close> on numbers: \<open>NaN\<close> equals nothing.\<close>

definition js_eq :: "jsnum \<Rightarrow> jsnum \<Rightarrow> bool" where
  "js_eq a b = (a \<noteq> NaN \<and> a = b)"

text \<open>
  \<open>a % b\<close>: the remainder of the division truncated towards zero; \<open>NaN\<close> for an
  infinite dividend or a zero divisor, the dividend for an infinite divisor.
\<close>

definition trunc :: "rat \<Rightarrow> int" where
  "trunc q = (if 0 \<le> q then \<lfloor>q\<rfloor> else \<lceil>q\<rceil>)"

fun js_rem :: "jsnum \<Rightarrow> jsnum \<Rightarrow> jsnum" where
  "js_rem (Fin a) (Fin b) = (if b = 0 then NaN else Fin (a - b * of_int (trunc (a / b))))"
| "js_rem (Fin a) PosInf = Fin a"
| "js_rem (Fin a) NegInf = Fin a"
| "js_rem _ _ = NaN"

text \<open>
  \<open>a === b\<close> on values. Arrays, objects, functions and symbols are equal only to
  themselves as references, which a value does not carry; the checker searches an
  enumeration for a number or a string only, and those equal no reference.
\<close>

fun strict_equals :: "jsval \<Rightarrow> jsval \<Rightarrow> bool" where
  "strict_equals Undefined Undefined = True"
| "strict_equals Null Null = True"
| "strict_equals (JBool a) (JBool b) = (a = b)"
| "strict_equals (JNum a) (JNum b) = js_eq a b"
| "strict_equals (JBigInt a) (JBigInt b) = (a = b)"
| "strict_equals (JStr a) (JStr b) = (a = b)"
| "strict_equals _ _ = False"

fun indexOf :: "jsval list \<Rightarrow> jsval \<Rightarrow> int" where
  "indexOf [] v = - 1"
| "indexOf (e # es) v =
     (if strict_equals e v then 0
      else (let i = indexOf es v in if i = - 1 then - 1 else i + 1))"

text \<open>
  \<open>Buffer.from(value, 'utf8').length\<close>: one byte for a code unit below \<open>0x80\<close>, two
  below \<open>0x800\<close>, four for a surrogate pair, three otherwise (a lone surrogate is
  written as U+FFFD).
\<close>

definition high_surrogate :: "16 word \<Rightarrow> bool" where
  "high_surrogate c = (0xD800 \<le> c \<and> c \<le> 0xDBFF)"

definition low_surrogate :: "16 word \<Rightarrow> bool" where
  "low_surrogate c = (0xDC00 \<le> c \<and> c \<le> 0xDFFF)"

fun utf8_length :: "jsstring \<Rightarrow> nat" where
  "utf8_length [] = 0"
| "utf8_length [c] = (if c < 0x80 then 1 else if c < 0x800 then 2 else 3)"
| "utf8_length (c # d # cs) =
     (if c < 0x80 then 1 + utf8_length (d # cs)
      else if c < 0x800 then 2 + utf8_length (d # cs)
      else if high_surrogate c \<and> low_surrogate d then 4 + utf8_length cs
      else 3 + utf8_length (d # cs))"

section \<open>Parameter checker: rules and state\<close>

text \<open>
  A \<open>RegExp\<close> object: the address that tells it from every other object, and what
  \<open>test\<close> does on a string when \<open>lastIndex\<close> has a given value: whether it matches,
  and the \<open>lastIndex\<close> it leaves. A pattern without the \<open>g\<close> and \<open>y\<close> flags ignores
  \<open>lastIndex\<close> and leaves it as it is.
\<close>

record regexp =
  address :: nat
  test :: "nat \<Rightarrow> jsstring \<Rightarrow> bool \<times> nat"

text \<open>
  A rule. \<open>min_rule\<close>, \<open>max_rule\<close>, \<open>minBytes\<close> and \<open>maxBytes\<close> hold the number when
  \<open>typeof\<close> of the key is \<open>'number'\<close> and \<open>None\<close> otherwise; \<open>pattern\<close> holds the key
  when it is a \<open>RegExp\<close>; \<open>enum_rule\<close> holds the elements of the key when it is an
  array; \<open>type_rule\<close> is \<open>None\<close> for \<open>undefined\<close>.
\<close>

record rule =
  required :: bool
  min_rule :: "jsnum option"
  max_rule :: "jsnum option"
  minBytes :: "jsnum option"
  maxBytes :: "jsnum option"
  pattern :: "regexp option"
  enum_rule :: "jsval list option"
  type_rule :: "string option"

definition empty_rule :: rule where
  "empty_rule = \<lparr>required = False, min_rule = None, max_rule = None, minBytes = None,
                  maxBytes = None, pattern = None, enum_rule = None, type_rule = None\<rparr>"

text \<open>
  A message is kept as the pieces the code concatenates: text, and a number converted to
  a string.
\<close>

datatype msg_part = Text string | Number jsnum

record check_error =
  code :: string
  message :: "msg_part list"
  name :: "string option"

text \<open>
  The static property \<open>ParameterChecker.error\<close>, which every checking method reads and
  writes: \<open>undefined\<close> until first written, \<open>null\<close>, or an error object.
\<close>

datatype error_state = ErrUndefined | ErrNull | ErrObject check_error

text \<open>
  The state the methods work on: the static property \<open>error\<close>, and the \<open>lastIndex\<close> of
  every \<open>RegExp\<close> object, by address.
\<close>

record checker_state =
  error :: error_state
  lastIndex :: "nat \<Rightarrow> nat"

text \<open>
  \<open>JSON.stringify\<close> on an enumeration, as a parameter: \<open>Inr\<close> the text, or \<open>Inl\<close> what
  it throws (a \<open>TypeError\<close> on a \<open>BigInt\<close> or on a cycle, anything a \<open>toJSON\<close> method
  throws).
\<close>

type_synonym 'x stringify = "jsval list \<Rightarrow> 'x reason + string"

definition set_error :: "string \<Rightarrow> msg_part list \<Rightarrow> checker_state \<Rightarrow> checker_state" where
  "set_error c m st = st\<lparr>error := ErrObject \<lparr>code = c, message = m, name = None\<rparr>\<rparr>"

definition isSpecified :: "jsval \<Rightarrow> bool" where
  "isSpecified value = (if value = Undefined then False else True)"

definition below :: "jsnum \<Rightarrow> jsnum option \<Rightarrow> bool" where
  "below x bound = (case bound of Some m \<Rightarrow> js_lt x m | None \<Rightarrow> False)"

definition above :: "jsnum \<Rightarrow> jsnum option \<Rightarrow> bool" where
  "above x bound = (case bound of Some m \<Rightarrow> js_gt x m | None \<Rightarrow> False)"

text \<open>
  The enumeration test that ends \<open>isFloat\<close> and \<open>isString\<close>. The message is built,
  and \<open>JSON.stringify\<close> called, before \<open>this.error\<close> is assigned: when it throws, the
  method is left with the state as it was.
\<close>

definition enum_check ::
  "'x stringify \<Rightarrow> rule \<Rightarrow> jsval \<Rightarrow> string \<Rightarrow> checker_state \<Rightarrow> ('x reason + bool) \<times> checker_state" where
  "enum_check stringify rule value name' st =
    (case enum_rule rule of
       Some es \<Rightarrow>
         if 0 < length es \<and> indexOf es value = - 1 then
           (case stringify es of
              Inl thrown \<Rightarrow> (Inl thrown, st)
            | Inr json \<Rightarrow>
                (Inr False,
                 set_error ''ENUM_UNMATCH''
                   [Text (''The `'' @ name' @ ''` must be any one of '' @ json @ ''.'')] st))
         else (Inr True, st)
     | None \<Rightarrow> (Inr True, st))"

text \<open>\<open>re.test(s)\<close>: reads and writes the \<open>lastIndex\<close> of \<open>re\<close>.\<close>

definition regexp_test :: "regexp \<Rightarrow> jsstring \<Rightarrow> checker_state \<Rightarrow> bool \<times> checker_state" where
  "regexp_test re s st =
    (case test re (lastIndex st (address re)) s of
       (matched, i) \<Rightarrow> (matched, st\<lparr>lastIndex := (lastIndex st)(address re := i)\<rparr>))"

section \<open>Parameter checker: the checking methods\<close>

text \<open>
  Every method takes the state and returns its result with the state as the call
  leaves it; \<open>Inl\<close> is an exception that leaves the method. The parameter \<open>name'\<close> is
  the source's \<open>name\<close>, \<open>required'\<close> its \<open>required\<close>; a call that omits the name passes
  the default \<open>''value''\<close>. \<open>isBoolean\<close>, \<open>isObject\<close> and \<open>isArray\<close> call nothing that
  throws.
\<close>

definition isFloat ::
  "'x stringify \<Rightarrow> jsval \<Rightarrow> rule \<Rightarrow> string \<Rightarrow> checker_state \<Rightarrow> ('x reason + bool) \<times> checker_state" where
  "isFloat stringify value rule name' st =
    (if \<not> required rule \<and> \<not> isSpecified value then (Inr True, st)
     else case value of
       JNum x \<Rightarrow>
         if below x (min_rule rule) then
           (Inr False, set_error ''VALUE_UNDERFLOW''
              [Text (''The `'' @ name' @ ''` must be grater than or equal to ''),
               Number (the (min_rule rule)), Text ''.''] st)
         else if above x (max_rule rule) then
           (Inr False, set_error ''VALUE_OVERFLOW''
              [Text (''The `'' @ name' @ ''` must be less than or equal to ''),
               Number (the (max_rule rule)), Text ''.''] st)
         else enum_check stringify rule value name' st
     | _ \<Rightarrow>
         (Inr False, set_error ''TYPE_INVALID''
            [Text (''The `'' @ name' @ ''` must be a number (integer or float).'')] st))"

text \<open>
  In \<open>isInteger\<close> the remainder is taken of a value that \<open>isFloat\<close> has accepted, which
  is a number; the last case of the model is never reached.
\<close>

definition isInteger ::
  "'x stringify \<Rightarrow> jsval \<Rightarrow> rule \<Rightarrow> string \<Rightarrow> checker_state \<Rightarrow> ('x reason + bool) \<times> checker_state" where
  "isInteger stringify value rule name' st =
    (let st0 = st\<lparr>error := ErrNull\<rparr> in
     if \<not> required rule \<and> \<not> isSpecified value then (Inr True, st0)
     else case isFloat stringify value rule ''value'' st0 of
       (Inl thrown, st1) \<Rightarrow> (Inl thrown, st1)
     | (Inr True, st1) \<Rightarrow>
         (case value of
            JNum x \<Rightarrow>
              if js_eq (js_rem x (Fin 1)) (Fin 0) then (Inr True, st1)
              else (Inr False, set_error ''TYPE_INVALID''
                      [Text (''The `'' @ name' @ ''` must be an integer.'')] st1)
          | _ \<Rightarrow> (Inr False, set_error ''TYPE_INVALID''
                      [Text (''The `'' @ name' @ ''` must be an integer.'')] st1))
     | (Inr False, st1) \<Rightarrow> (Inr False, st1))"

definition isBoolean :: "jsval \<Rightarrow> rule \<Rightarrow> string \<Rightarrow> checker_state \<Rightarrow> bool \<times> checker_state" where
  "isBoolean value rule name' st =
    (let st0 = st\<lparr>error := ErrNull\<rparr> in
     if \<not> required rule \<and> \<not> isSpecified value then (True, st0)
     else if typeof value \<noteq> ''boolean'' then
       (False, set_error ''TYPE_INVALID'' [Text (''The `'' @ name' @ ''` must be boolean.'')] st0)
     else (True, st0))"

definition isObject :: "jsval \<Rightarrow> rule \<Rightarrow> string \<Rightarrow> checker_state \<Rightarrow> bool \<times> checker_state" where
  "isObject value rule name' st =
    (let st0 = st\<lparr>error := ErrNull\<rparr> in
     if \<not> required rule \<and> \<not> isSpecified value then (True, st0)
     else if typeof value \<noteq> ''object'' \<or> value = Null \<or> Array_isArray value then
       (False, set_error ''TYPE_INVALID'' [Text (''The `'' @ name' @ ''` must be an object.'')] st0)
     else (True, st0))"

definition isArray :: "jsval \<Rightarrow> rule \<Rightarrow> string \<Rightarrow> checker_state \<Rightarrow> bool \<times> checker_state" where
  "isArray value rule name' st =
    (let st0 = st\<lparr>error := ErrNull\<rparr> in
     if \<not> required rule \<and> \<not> isSpecified value then (True, st0)
     else case value of
       JArr xs \<Rightarrow>
         if below (Fin (of_nat (length xs))) (min_rule rule) then
           (False, set_error ''LENGTH_UNDERFLOW''
              [Text (''The number of characters in the `'' @ name' @
                     ''` must be grater than or equal to ''),
               Number (the (min_rule rule)), Text ''.''] st0)
         else if above (Fin (of_nat (length xs))) (max_rule rule) then
           (False, set_error ''LENGTH_OVERFLOW''
              [Text (''The number of characters in the `'' @ name' @
                     ''` must be less than or equal to ''),
               Number (the (max_rule rule)), Text ''.''] st0)
         else (True, st0)
     | _ \<Rightarrow> (False, set_error ''TYPE_INVALID'' [Text ''The value must be an array.''] st0))"

definition isString ::
  "'x stringify \<Rightarrow> jsval \<Rightarrow> rule \<Rightarrow> string \<Rightarrow> checker_state \<Rightarrow> ('x reason + bool) \<times> checker_state" where
  "isString stringify value rule name' st =
    (let st0 = st\<lparr>error := ErrNull\<rparr> in
     if \<not> required rule \<and> \<not> isSpecified value then (Inr True, st0)
     else case value of
       JStr s \<Rightarrow>
         if below (Fin (of_nat (length s))) (min_rule rule) then
           (Inr False, set_error ''LENGTH_UNDERFLOW''
              [Text (''The number of characters in the `'' @ name' @
                     ''` must be grater than or equal to ''),
               Number (the (min_rule rule)), Text ''.''] st0)
         else if above (Fin (of_nat (length s))) (max_rule rule) then
           (Inr False, set_error ''LENGTH_OVERFLOW''
              [Text (''The number of characters in the `'' @ name' @
                     ''` must be less than or equal to ''),
               Number (the (max_rule rule)), Text ''.''] st0)
         else if below (Fin (of_nat (utf8_length s))) (minBytes rule) then
           (Inr False, set_error ''LENGTH_UNDERFLOW''
              [Text (''The byte length of the `'' @ name' @ ''` (''),
               Number (Fin (of_nat (utf8_length s))),
               Text '' bytes) must be grater than or equal to '',
               Number (the (minBytes rule)), Text '' bytes.''] st0)
         else if above (Fin (of_nat (utf8_length s))) (maxBytes rule) then
           (Inr False, set_error ''LENGTH_OVERFLOW''
              [Text (''The byte length of the `'' @ name' @ ''` (''),
               Number (Fin (of_nat (utf8_length s))),
               Text '' bytes) must be less than or equal to '',
               Number (the (maxBytes rule)), Text '' bytes.''] st0)
         else
           (case pattern rule of
              None \<Rightarrow> enum_check stringify rule value name' st0
            | Some re \<Rightarrow>
                (case regexp_test re s st0 of
                   (False, st1) \<Rightarrow>
                     (Inr False, set_error ''PATTERN_UNMATCH''
                        [Text (''The `'' @ name' @ ''` does not conform with the pattern.'')] st1)
                 | (True, st1) \<Rightarrow> enum_check stringify rule value name' st1))
     | _ \<Rightarrow> (Inr False, set_error ''TYPE_INVALID'' [Text ''The value must be a string.''] st0))"

section \<open>Parameter checker: check\<close>

text \<open>
  \<open>Object.keys(rules)\<close> and the two property reads \<open>obj[name]\<close> and \<open>rules[name]\<close>.
  A rule set is the list of its own entries in the order \<open>Object.keys\<close> gives them, so
  \<open>rules[name]\<close> finds an own entry. \<open>obj[name]\<close> is read after \<open>isObject\<close> has
  accepted \<open>obj\<close>: it finds an own property first and an inherited one next.
\<close>

definition Object_keys :: "(string \<times> rule) list \<Rightarrow> string list" where
  "Object_keys rules = map fst rules"

definition get_prop :: "jsval \<Rightarrow> string \<Rightarrow> jsval" where
  "get_prop obj name' =
     (case obj of
        JObj own inherited \<Rightarrow>
          (case map_of own name' of
             Some v \<Rightarrow> v
           | None \<Rightarrow> (case map_of inherited name' of Some v \<Rightarrow> v | None \<Rightarrow> Undefined))
      | _ \<Rightarrow> Undefined)"

definition get_rule :: "(string \<times> rule) list \<Rightarrow> string \<Rightarrow> rule" where
  "get_rule rules name' = (case map_of rules name' of Some r \<Rightarrow> r | None \<Rightarrow> empty_rule)"

text \<open>The type dispatch of one loop iteration.\<close>

definition check_type ::
  "'x stringify \<Rightarrow> jsval \<Rightarrow> rule \<Rightarrow> string \<Rightarrow> checker_state \<Rightarrow> ('x reason + bool) \<times> checker_state" where
  "check_type stringify v rule name' st =
    (if type_rule rule = Some ''float'' then isFloat stringify v rule name' st
     else if type_rule rule = Some ''integer'' then isInteger stringify v rule name' st
     else if type_rule rule = Some ''boolean'' then apfst Inr (isBoolean v rule name' st)
     else if type_rule rule = Some ''array'' then apfst Inr (isArray v rule name' st)
     else if type_rule rule = Some ''object'' then apfst Inr (isObject v rule name' st)
     else if type_rule rule = Some ''string'' then isString stringify v rule name' st
     else (Inr False, set_error ''TYPE_UNKNOWN''
             [Text (''The rule specified for the `'' @ name' @ ''` includes an unknown type: '' @
                    (case type_rule rule of Some t \<Rightarrow> t | None \<Rightarrow> ''undefined''))] st))"

text \<open>
  The loop over \<open>name_list\<close>, from index \<open>i\<close> on: the list argument is what is left of
  \<open>name_list\<close>. \<open>this.error.name = name\<close> throws a \<open>TypeError\<close> when the field holds
  no object.
\<close>

fun check_loop ::
  "'x stringify \<Rightarrow> jsval \<Rightarrow> (string \<times> rule) list \<Rightarrow> string list \<Rightarrow> checker_state \<Rightarrow>
     ('x reason + bool) \<times> checker_state" where
  "check_loop stringify obj rules [] st = (Inr True, st)"
| "check_loop stringify obj rules (name' # rest) st =
    (let v = get_prop obj name';
         rule = get_rule rules name'
     in if \<not> isSpecified v then
          (if required rule then
             (Inr False,
              set_error ''MISSING_REQUIRED'' [Text (''The `'' @ name' @ ''` is required.'')] st)
           else check_loop stringify obj rules rest st)
        else
          (case check_type stringify v rule name' st of
             (Inl thrown, st1) \<Rightarrow> (Inl thrown, st1)
           | (Inr False, st1) \<Rightarrow>
               (case error st1 of
                  ErrObject e \<Rightarrow> (Inr False, st1\<lparr>error := ErrObject (e\<lparr>name := Some name'\<rparr>)\<rparr>)
                | _ \<Rightarrow> (Inl (Raised TypeError), st1))
           | (Inr True, st1) \<Rightarrow> check_loop stringify obj rules rest st1))"

definition check ::
  "'x stringify \<Rightarrow> jsval \<Rightarrow> (string \<times> rule) list \<Rightarrow> bool \<Rightarrow> checker_state \<Rightarrow>
     ('x reason + bool) \<times> checker_state" where
  "check stringify obj rules required' st =
    (if required' \<and> \<not> isSpecified obj then
       (Inr False, set_error ''MISSING_REQUIRED'' [Text ''The first argument is missing.''] st)
     else if \<not> required' \<and> \<not> truthy obj then (Inr True, st)
     else
       (case isObject obj empty_rule ''value'' st of
          (False, st1) \<Rightarrow>
            (Inr False,
             set_error ''MISSING_REQUIRED'' [Text ''The first argument is missing.''] st1)
        | (True, st1) \<Rightarrow> check_loop stringify obj rules (Object_keys rules) st1))"

section \<open>Parameter checker: collaborators of the examples\<close>

text \<open>
  The state before the first call: \<open>error\<close> not yet written, every \<open>lastIndex\<close> 0.
\<close>

definition initial_state :: checker_state where
  "initial_state = \<lparr>error = ErrUndefined, lastIndex = (\<lambda>a. 0)\<rparr>"

text \<open>
  \<open>JSON.stringify\<close> as it answers on the enumeration \<open>[1, 2]\<close>, and as it answers on
  an enumeration that holds a \<open>BigInt\<close>.
\<close>

definition stringify_1_2 :: "'x stringify" where
  "stringify_1_2 es = Inr ''[1,2]''"

definition stringify_throws :: "'x stringify" where
  "stringify_throws es = Inl (Raised TypeError)"

text \<open>
  The pattern \<open>/a/g\<close>: \<open>test\<close> looks for the code unit \<open>0x61\<close> from \<open>lastIndex\<close> on and
  leaves \<open>lastIndex\<close> behind the match, or at 0 when there is none.
\<close>

definition test_global_char :: "16 word \<Rightarrow> nat \<Rightarrow> jsstring \<Rightarrow> bool \<times> nat" where
  "test_global_char c i s =
     (let j = i + length (takeWhile (\<lambda>d. d \<noteq> c) (drop i s))
      in if j < length s then (True, j + 1) else (False, 0))"

definition regexp_a_global :: regexp where
  "regexp_a_global = \<lparr>address = 0, test = test_global_char 0x61\<rparr>"

section \<open>Properties of the advertisement decoder\<close>

lemma and_0x80_bit: "((w :: u8) AND 0x80 \<noteq> 0) = bit w 7"
proof -
  have "(0x80 :: u8) = 2 ^ 7" by simp
  then show ?thesis
    using and_exp_eq_0_iff_not_bit [of w 7] by simp
qed

lemma and_0x7F_mod: "unat ((w :: u8) AND 0x7F) = unat w mod 128"
proof -
  have "(0x7F :: u8) = mask 7" by (simp add: mask_eq_exp_minus_1)
  then have "w AND 0x7F = take_bit 7 w" by (simp add: take_bit_eq_mask)
  then have "unat (w AND 0x7F) = take_bit 7 (unat w)" by (simp add: unsigned_take_bit_eq)
  then show ?thesis by (simp add: take_bit_eq_mod)
qed

lemma parseServiceData_length8:
  assumes "length buf = 8"
  shows "parseServiceData buf onlog =
    \<lparr>logged = [], offsets_read = [1, 4],
     returned = Inr (Some \<lparr>model = ''e'', modelName = ''WoHumi'',
                             onState = bit (buf ! 1) 7,
                             autoMode = bit (buf ! 4) 7,
                             percentage = (if bit (buf ! 4) 7 then 0 else unat (buf ! 4) mod 128)\<rparr>)\<rparr>"
  using assms by (simp add: parseServiceData_def readUInt8_def Let_def and_0x80_bit and_0x7F_mod)

text \<open>
  C2. For every 8-byte service-data buffer, \<open>parseServiceData\<close> returns a record in which
  \<open>onState\<close> is bit 7 of byte 1, \<open>autoMode\<close> is bit 7 of byte 4, and \<open>percentage\<close> is
  the low seven bits of byte 4, or 0 when \<open>autoMode\<close> is set. With byte 1 = \<open>0x80\<close> and
  byte 4 = \<open>0x32\<close> the record is on, not auto, 50; with byte 4 = \<open>0x96\<close> it is auto, 0.
\<close>

theorem parseServiceData_decodes:
  "(length buf = 8 \<longrightarrow>
      returned (parseServiceData buf onlog) =
        Inr (Some \<lparr>model = ''e'', modelName = ''WoHumi'',
                    onState = bit (buf ! 1) 7,
                    autoMode = bit (buf ! 4) 7,
                    percentage = (if bit (buf ! 4) 7 then 0 else unat (buf ! 4) mod 128)\<rparr>))
   \<and> returned (parseServiceData [b0, 0x80, b2, b3, 0x32, b5, b6, b7] onlog) =
        Inr (Some \<lparr>model = ''e'', modelName = ''WoHumi'',
                    onState = True, autoMode = False, percentage = 50\<rparr>)
   \<and> returned (parseServiceData [b0, b1, b2, b3, 0x96, b5, b6, b7] onlog) =
        Inr (Some \<lparr>model = ''e'', modelName = ''WoHumi'',
                    onState = bit b1 7, autoMode = True, percentage = 0\<rparr>)"
proof (intro conjI impI)
  assume "length buf = 8"
  then show "returned (parseServiceData buf onlog) =
        Inr (Some \<lparr>model = ''e'', modelName = ''WoHumi'',
                    onState = bit (buf ! 1) 7,
                    autoMode = bit (buf ! 4) 7,
                    percentage = (if bit (buf ! 4) 7 then 0 else unat (buf ! 4) mod 128)\<rparr>)"
    by (simp add: parseServiceData_length8)
next
  show "returned (parseServiceData [b0, 0x80, b2, b3, 0x32, b5, b6, b7] onlog) =
        Inr (Some \<lparr>model = ''e'', modelName = ''WoHumi'',
                    onState = True, autoMode = False, percentage = 50\<rparr>)"
    by (simp add: parseServiceData_def readUInt8_def Let_def)
next
  show "returned (parseServiceData [b0, b1, b2, b3, 0x96, b5, b6, b7] onlog) =
        Inr (Some \<lparr>model = ''e'', modelName = ''WoHumi'',
                    onState = bit b1 7, autoMode = True, percentage = 0\<rparr>)"
    by (simp add: parseServiceData_def readUInt8_def Let_def and_0x80_bit)
qed

theorem parseServiceData_decodes_witness:
  "length [0, 0x80, 0, 0, 0x32, 0, 0, 0 :: u8] = 8 \<and>
   returned (parseServiceData [0, 0x80, 0, 0, 0x32, 0, 0, 0] True) =
     Inr (Some \<lparr>model = ''e'', modelName = ''WoHumi'',
                 onState = True, autoMode = False, percentage = 50\<rparr>)"
  using parseServiceData_decodes [of "[0, 0x80, 0, 0, 0x32, 0, 0, 0]" True 0 0 0 0 0 0 0]
  by simp

text \<open>
  The decoded record has the five fields \<open>model\<close>, \<open>modelName\<close>, \<open>onState\<close>,
  \<open>autoMode\<close> and \<open>percentage\<close> and no field for a gear: byte 4 = \<open>0x65\<close> (101, quick
  gear 1) comes back as \<open>percentage = 101\<close>.
\<close>

theorem parseServiceData_quick_gear_counterexample:
  "returned (parseServiceData [0, 0x80, 0, 0, 0x65, 0, 0, 0] False) =
     Inr (Some \<lparr>model = ''e'', modelName = ''WoHumi'',
                 onState = True, autoMode = False, percentage = 101\<rparr>)"
  by (simp add: parseServiceData_def readUInt8_def Let_def)

text \<open>
  C3, as the code has it. For every 8-byte service-data buffer with the auto-mode bit
  clear whose byte-4 low seven bits are 101, 102 or 103, the decoder returns that raw
  value in the \<open>percentage\<close> field of the record; the record carries no separate
  quick-gear mode.
\<close>

theorem parseServiceData_quick_gear:
  assumes "length buf = 8"
    and "\<not> bit (buf ! 4) 7"
    and "unat (buf ! 4) mod 128 = 101 \<or> unat (buf ! 4) mod 128 = 102 \<or> unat (buf ! 4) mod 128 = 103"
  shows "returned (parseServiceData buf onlog) =
     Inr (Some \<lparr>model = ''e'', modelName = ''WoHumi'',
                 onState = bit (buf ! 1) 7, autoMode = False,
                 percentage = unat (buf ! 4) mod 128\<rparr>)"
  using assms by (simp add: parseServiceData_length8)

theorem parseServiceData_quick_gear_witness:
  "length [0, 0, 0, 0, 0x66, 0, 0, 0 :: u8] = 8 \<and>
   \<not> bit ([0, 0, 0, 0, 0x66, 0, 0, 0 :: u8] ! 4) 7 \<and>
   unat ([0, 0, 0, 0, 0x66, 0, 0, 0 :: u8] ! 4) mod 128 = 102 \<and>
   returned (parseServiceData [0, 0, 0, 0, 0x66, 0, 0, 0] False) =
     Inr (Some \<lparr>model = ''e'', modelName = ''WoHumi'',
                 onState = False, autoMode = False, percentage = 102\<rparr>)"
  using parseServiceData_quick_gear [of "[0, 0, 0, 0, 0x66, 0, 0, 0]" False]
  by simp

text \<open>
  C4. For every buffer whose length is not 8, \<open>parseServiceData\<close> returns \<open>null\<close> and
  reads no byte offset. On every buffer, each offset it reads lies inside the buffer and
  no exception leaves the function.
\<close>

theorem parseServiceData_wrong_length:
  "(length buf \<noteq> 8 \<longrightarrow>
      returned (parseServiceData buf onlog) = Inr None \<and>
      offsets_read (parseServiceData buf onlog) = [])
   \<and> (\<forall>i \<in> set (offsets_read (parseServiceData buf onlog)). i < length buf)
   \<and> (\<forall>e. returned (parseServiceData buf onlog) \<noteq> Inl e)"
  by (simp add: parseServiceData_def readUInt8_def Let_def)

theorem parseServiceData_wrong_length_witness:
  "length [0x65, 0x80, 0 :: u8] \<noteq> 8 \<and>
   returned (parseServiceData [0x65, 0x80, 0] True) = Inr None \<and>
   offsets_read (parseServiceData [0x65, 0x80, 0] True) = []"
  using parseServiceData_wrong_length [of "[0x65, 0x80, 0]" True]
  by simp

section \<open>Properties of the command exchange\<close>

lemma hex_value_digit: "d < 16 \<Longrightarrow> hex_value (hex_digit d) = d"
proof -
  have all: "list_all (\<lambda>k. hex_value (hex_digit k) = k) [0..<16]"
    by code_simp
  assume "d < 16"
  then have "d \<in> set [0..<16]" by simp
  with all show ?thesis unfolding list_all_iff by blast
qed

lemma parse_hex_byte: "parse_hex (hex_byte b @ cs) = b # parse_hex cs"
proof -
  have "unat b div 16 < 16"
    using unsigned_less [of b, where ?'a = nat] by (simp add: less_mult_imp_div_less)
  moreover have "unat b mod 16 < 16" by simp
  ultimately show ?thesis
    by (simp add: hex_byte_def hex_value_digit)
qed

lemma parse_hex_toString_hex: "parse_hex (toString_hex buf) = buf"
  by (induction buf) (simp_all add: toString_hex_def parse_hex_byte)

lemma toString_hex_length: "length (toString_hex buf) = 2 * length buf"
  by (induction buf) (simp_all add: toString_hex_def hex_byte_def)

lemma operateBot_then_nonempty:
  "res_buf \<noteq> [] \<Longrightarrow>
   operateBot_then res_buf =
     (if length res_buf = 3 \<and> (res_buf ! 0 = 0x01 \<or> res_buf ! 0 = 0x05)
      then ([Resolve], None)
      else ([Reject (Raised (Error (''The device returned an error: 0x'' @ toString_hex res_buf)))],
            None))"
  by (simp add: operateBot_then_def readUInt8_def)

lemma operateBot_then_empty: "operateBot_then [] = ([], Some RangeError)"
  by (simp add: operateBot_then_def readUInt8_def)

text \<open>
  C1. When the response buffer has length 3, \<open>_operateBot\<close> resolves if its first byte
  is \<open>0x01\<close> or \<open>0x05\<close>, and otherwise rejects with an error whose message ends in the
  hexadecimal encoding of the whole response, from which every byte can be read back;
  the bytes \<open>02 00 00\<close> encode as \<open>020000\<close>.
\<close>

theorem operateBot_opcode:
  "(command (Buffer_from bytes) = Fulfilled res_buf \<and> length res_buf = 3 \<longrightarrow>
      operateBot bytes command =
        (if res_buf ! 0 = 0x01 \<or> res_buf ! 0 = 0x05 then Some Resolve
         else Some (Reject (Raised (Error (''The device returned an error: 0x'' @
                                            toString_hex res_buf))))))
   \<and> parse_hex (toString_hex res_buf) = res_buf
   \<and> toString_hex [0x02, 0x00, 0x00] = ''020000''"
proof (intro conjI impI)
  assume a: "command (Buffer_from bytes) = Fulfilled res_buf \<and> length res_buf = 3"
  then have "res_buf \<noteq> []" by auto
  with a show "operateBot bytes command =
        (if res_buf ! 0 = 0x01 \<or> res_buf ! 0 = 0x05 then Some Resolve
         else Some (Reject (Raised (Error (''The device returned an error: 0x'' @
                                            toString_hex res_buf)))))"
    by (simp add: operateBot_def operateBot_calls_def operateBot_then_nonempty)
next
  show "parse_hex (toString_hex res_buf) = res_buf"
    by (rule parse_hex_toString_hex)
next
  show "toString_hex [0x02, 0x00, 0x00] = ''020000''"
    by (simp add: toString_hex_def hex_byte_def hex_digit_def)
qed

theorem operateBot_opcode_witness:
  "(\<lambda>_. Fulfilled [0x02, 0x00, 0x00]) (Buffer_from [0x57, 0x01, 0x01]) =
     (Fulfilled [0x02, 0x00, 0x00] :: unit promise) \<and>
   length [0x02, 0x00, 0x00 :: u8] = 3 \<and>
   operateBot [0x57, 0x01, 0x01] (\<lambda>_. Fulfilled [0x02, 0x00, 0x00] :: unit promise) =
     Some (Reject (Raised (Error ''The device returned an error: 0x020000'')))"
  using operateBot_opcode [of "\<lambda>_. Fulfilled [0x02, 0x00, 0x00] :: unit promise"
                              "[0x57, 0x01, 0x01]" "[0x02, 0x00, 0x00]"]
  by simp




text \<open>
  A response of wrong length that is not empty is rejected with the hexadecimal
  encoding of its bytes.
\<close>

lemma operateBot_wrong_length_nonempty:
  assumes "command (Buffer_from bytes) = Fulfilled res_buf" and "res_buf \<noteq> []"
    and "length res_buf \<noteq> 3"
  shows "operateBot bytes command =
     Some (Reject (Raised (Error (''The device returned an error: 0x'' @ toString_hex res_buf))))"
  using assms by (simp add: operateBot_def operateBot_calls_def operateBot_then_nonempty)

text \<open>
  C6. A response whose length is not 3 should be rejected with the hexadecimal encoding
  of its bytes. On the empty response the first byte is read before the length is
  compared, so \<open>turnOn\<close> is rejected with the \<open>RangeError\<close> of that read instead of
  the error built from the response.
\<close>

theorem operateBot_empty_response:
  "turnOn (\<lambda>_. Fulfilled [] :: unit promise) = Some (Reject (Raised RangeError))
   \<and> Raised RangeError \<noteq>
       (Raised (Error (''The device returned an error: 0x'' @ toString_hex [])) :: unit reason)"
  by (simp add: turnOn_def operateBot_def operateBot_calls_def operateBot_catch_def
                operateBot_then_empty)

section \<open>Properties of the parameter checker\<close>

subsection \<open>Numbers, the single checking methods and the loop\<close>

lemma js_lt_NaN [simp]: "js_lt NaN b = False" "js_lt a NaN = False"
  by (cases b; simp) (cases a; simp)

lemma below_NaN [simp]: "below NaN bound = False"
  by (simp add: below_def split: option.splits)

lemma above_NaN [simp]: "above NaN bound = False"
  by (simp add: above_def js_gt_def split: option.splits)

lemma strict_equals_NaN [simp]: "strict_equals e (JNum NaN) = False"
  by (cases e) (simp_all add: js_eq_def)

lemma indexOf_NaN [simp]: "indexOf es (JNum NaN) = - 1"
  by (induction es) simp_all

lemma trunc_eq_iff: "(q = of_int (trunc q)) = (\<exists>n::int. q = of_int n)"
proof
  assume "q = of_int (trunc q)"
  then show "\<exists>n::int. q = of_int n" ..
next
  assume "\<exists>n::int. q = of_int n"
  then obtain n :: int where "q = of_int n" ..
  then show "q = of_int (trunc q)" by (simp add: trunc_def)
qed

lemma js_rem_one: "js_eq (js_rem x (Fin 1)) (Fin 0) = (\<exists>n::int. x = Fin (of_int n))"
  by (cases x) (simp_all add: js_eq_def trunc_eq_iff)

lemma trunc_five_halves: "trunc (5 / 2) = 2"
proof -
  have "\<lfloor>(5::rat) / 2\<rfloor> = 2" by (rule floor_unique) simp_all
  then show ?thesis by (simp add: trunc_def)
qed

text \<open>
  No method reads the error field before writing it: a result, and the \<open>lastIndex\<close>
  values a call leaves, do not depend on what the field held. A method that returns
  false leaves an error object in the field.
\<close>

lemma same_lastIndex:
  fixes st st' :: checker_state
  assumes "lastIndex st = lastIndex st'"
  shows "st' = st\<lparr>error := error st'\<rparr>"
  using assms by (cases st, cases st') simp

lemma enum_check_error:
  "fst (enum_check S r v n (st\<lparr>error := e\<rparr>)) = fst (enum_check S r v n st) \<and>
   lastIndex (snd (enum_check S r v n (st\<lparr>error := e\<rparr>))) = lastIndex (snd (enum_check S r v n st))"
  by (simp add: enum_check_def set_error_def split: option.splits sum.splits)

lemma enum_check_False:
  "fst (enum_check S r v n st) = Inr False \<Longrightarrow> \<exists>x. error (snd (enum_check S r v n st)) = ErrObject x"
  by (auto simp add: enum_check_def set_error_def split: option.splits sum.splits if_splits)

lemma isFloat_error:
  "fst (isFloat S v r n (st\<lparr>error := e\<rparr>)) = fst (isFloat S v r n st) \<and>
   lastIndex (snd (isFloat S v r n (st\<lparr>error := e\<rparr>))) = lastIndex (snd (isFloat S v r n st))"
  using enum_check_error [where S = S and r = r and v = v and n = n and st = st and e = e]
  by (cases v) (simp_all add: isFloat_def set_error_def)

lemma isFloat_False:
  "fst (isFloat S v r n st) = Inr False \<Longrightarrow> \<exists>x. error (snd (isFloat S v r n st)) = ErrObject x"
  using enum_check_False [of S r v n st]
  by (cases v) (auto simp add: isFloat_def set_error_def split: if_splits)

text \<open>
  Past the first test of \<open>isInteger\<close>, \<open>isFloat\<close> accepts nothing but a number.
\<close>

lemma isFloat_True_num:
  "fst (isFloat S v r n st) = Inr True \<Longrightarrow> required r \<or> isSpecified v \<Longrightarrow> \<exists>x. v = JNum x"
  by (cases v) (auto simp add: isFloat_def split: if_splits)

lemma isInteger_error:
  "fst (isInteger S v r n (st\<lparr>error := e\<rparr>)) = fst (isInteger S v r n st) \<and>
   lastIndex (snd (isInteger S v r n (st\<lparr>error := e\<rparr>))) = lastIndex (snd (isInteger S v r n st))"
  by (simp add: isInteger_def Let_def)

lemma isInteger_False:
  "fst (isInteger S v r n st) = Inr False \<Longrightarrow> \<exists>x. error (snd (isInteger S v r n st)) = ErrObject x"
  using isFloat_False [of S v r "''value''" "st\<lparr>error := ErrNull\<rparr>"]
  by (cases v)
     (auto simp add: isInteger_def Let_def set_error_def
           split: if_splits prod.splits sum.splits bool.splits)

lemma isBoolean_error:
  "fst (isBoolean v r n (st\<lparr>error := e\<rparr>)) = fst (isBoolean v r n st) \<and>
   lastIndex (snd (isBoolean v r n (st\<lparr>error := e\<rparr>))) = lastIndex (snd (isBoolean v r n st))"
  by (simp add: isBoolean_def Let_def set_error_def)

lemma isBoolean_False:
  "\<not> fst (isBoolean v r n st) \<Longrightarrow> \<exists>x. error (snd (isBoolean v r n st)) = ErrObject x"
  by (auto simp add: isBoolean_def Let_def set_error_def split: if_splits)

lemma isObject_error:
  "fst (isObject v r n (st\<lparr>error := e\<rparr>)) = fst (isObject v r n st) \<and>
   lastIndex (snd (isObject v r n (st\<lparr>error := e\<rparr>))) = lastIndex (snd (isObject v r n st))"
  by (simp add: isObject_def Let_def set_error_def)

lemma isObject_False:
  "\<not> fst (isObject v r n st) \<Longrightarrow> \<exists>x. error (snd (isObject v r n st)) = ErrObject x"
  by (auto simp add: isObject_def Let_def set_error_def split: if_splits)

lemma isArray_error:
  "fst (isArray v r n (st\<lparr>error := e\<rparr>)) = fst (isArray v r n st) \<and>
   lastIndex (snd (isArray v r n (st\<lparr>error := e\<rparr>))) = lastIndex (snd (isArray v r n st))"
  by (simp add: isArray_def Let_def)

lemma isArray_False:
  "\<not> fst (isArray v r n st) \<Longrightarrow> \<exists>x. error (snd (isArray v r n st)) = ErrObject x"
  by (cases v) (auto simp add: isArray_def Let_def set_error_def split: if_splits)

lemma isString_error:
  "fst (isString S v r n (st\<lparr>error := e\<rparr>)) = fst (isString S v r n st) \<and>
   lastIndex (snd (isString S v r n (st\<lparr>error := e\<rparr>))) = lastIndex (snd (isString S v r n st))"
  by (simp add: isString_def Let_def)

lemma isString_False:
  "fst (isString S v r n st) = Inr False \<Longrightarrow> \<exists>x. error (snd (isString S v r n st)) = ErrObject x"
proof (cases v)
  case (JStr s)
  assume f: "fst (isString S v r n st) = Inr False"
  show ?thesis
  proof (cases "pattern r")
    case None
    with f JStr show ?thesis
      using enum_check_False [of S r v n "st\<lparr>error := ErrNull\<rparr>"]
      by (auto simp add: isString_def Let_def set_error_def split: if_splits)
  next
    case (Some re)
    obtain m st1 where t: "regexp_test re s (st\<lparr>error := ErrNull\<rparr>) = (m, st1)"
      by (cases "regexp_test re s (st\<lparr>error := ErrNull\<rparr>)")
    with f JStr Some show ?thesis
      using enum_check_False [of S r v n st1]
      by (auto simp add: isString_def Let_def set_error_def split: if_splits bool.splits)
  qed
qed (auto simp add: isString_def Let_def set_error_def split: if_splits)

lemma check_type_error:
  "fst (check_type S v r n (st\<lparr>error := e\<rparr>)) = fst (check_type S v r n st) \<and>
   lastIndex (snd (check_type S v r n (st\<lparr>error := e\<rparr>))) = lastIndex (snd (check_type S v r n st))"
  using isFloat_error [where S = S and r = r and v = v and n = n and st = st and e = e] isInteger_error [where S = S and r = r and v = v and n = n and st = st and e = e]
    isBoolean_error [where r = r and v = v and n = n and st = st and e = e] isArray_error [where r = r and v = v and n = n and st = st and e = e]
    isObject_error [where r = r and v = v and n = n and st = st and e = e] isString_error [where S = S and r = r and v = v and n = n and st = st and e = e]
  by (simp add: check_type_def set_error_def)

lemma check_type_False:
  "fst (check_type S v r n st) = Inr False \<Longrightarrow> \<exists>x. error (snd (check_type S v r n st)) = ErrObject x"
  using isFloat_False [of S v r n st] isInteger_False [of S v r n st]
    isBoolean_False [of v r n st] isArray_False [of v r n st]
    isObject_False [of v r n st] isString_False [of S v r n st]
  by (auto simp add: check_type_def set_error_def split: if_splits)


lemma check_loop_error:
  "fst (check_loop S obj rules names (st\<lparr>error := e\<rparr>)) = fst (check_loop S obj rules names st) \<and>
   lastIndex (snd (check_loop S obj rules names (st\<lparr>error := e\<rparr>))) =
     lastIndex (snd (check_loop S obj rules names st))"
proof (induction names arbitrary: st e)
  case Nil
  show ?case by simp
next
  case (Cons n rest)
  let ?v = "get_prop obj n" and ?r = "get_rule rules n"
  show ?case
  proof (cases "isSpecified ?v")
    case False
    then show ?thesis
      using Cons.IH [of e st] by (simp add: Let_def set_error_def)
  next
    case True
    obtain b st1 where c1: "check_type S ?v ?r n st = (b, st1)"
      by (cases "check_type S ?v ?r n st")
    obtain b' st1' where c2: "check_type S ?v ?r n (st\<lparr>error := e\<rparr>) = (b', st1')"
      by (cases "check_type S ?v ?r n (st\<lparr>error := e\<rparr>)")
    from c1 c2 check_type_error [where S = S and v = ?v and r = ?r and n = n and st = st and e = e]
    have bb: "b' = b" and ll: "lastIndex st1 = lastIndex st1'" by simp_all
    from ll have st1': "st1' = st1\<lparr>error := error st1'\<rparr>" by (rule same_lastIndex)
    show ?thesis
    proof (cases b)
      case (Inl thrown)
      with True c1 c2 bb ll show ?thesis by (simp add: Let_def)
    next
      case (Inr ok)
      show ?thesis
      proof (cases ok)
        case True
        have "fst (check_loop S obj rules rest st1') = fst (check_loop S obj rules rest st1) \<and>
              lastIndex (snd (check_loop S obj rules rest st1')) =
                lastIndex (snd (check_loop S obj rules rest st1))"
          using Cons.IH [of "error st1'" st1] st1' by simp
        with True Inr \<open>isSpecified ?v\<close> c1 c2 bb show ?thesis by (simp add: Let_def)
      next
        case False
        from False Inr c1 check_type_False [of S ?v ?r n st]
        obtain x where x: "error st1 = ErrObject x" by auto
        from False Inr bb c2 check_type_False [of S ?v ?r n "st\<lparr>error := e\<rparr>"]
        obtain x' where x': "error st1' = ErrObject x'" by auto
        from x x' False Inr \<open>isSpecified ?v\<close> c1 c2 bb ll show ?thesis by (simp add: Let_def)
      qed
    qed
  qed
qed

lemma check_loop_False:
  "fst (check_loop S obj rules names st) = Inr False \<Longrightarrow>
   \<exists>x. error (snd (check_loop S obj rules names st)) = ErrObject x"
proof (induction names arbitrary: st)
  case Nil
  then show ?case by simp
next
  case (Cons n rest)
  let ?v = "get_prop obj n" and ?r = "get_rule rules n"
  show ?case
  proof (cases "isSpecified ?v")
    case False
    with Cons.prems show ?thesis
      using Cons.IH [of st] by (auto simp add: Let_def set_error_def split: if_splits)
  next
    case True
    obtain b st1 where c1: "check_type S ?v ?r n st = (b, st1)"
      by (cases "check_type S ?v ?r n st")
    show ?thesis
    proof (cases b)
      case (Inl thrown)
      with True c1 Cons.prems show ?thesis by (simp add: Let_def)
    next
      case (Inr ok)
      show ?thesis
      proof (cases ok)
        case True
        with Inr \<open>isSpecified ?v\<close> c1 Cons.prems show ?thesis
          using Cons.IH [of st1] by (simp add: Let_def)
      next
        case False
        from False Inr c1 check_type_False [of S ?v ?r n st]
        obtain x where x: "error st1 = ErrObject x" by auto
        with False Inr \<open>isSpecified ?v\<close> c1 show ?thesis by (simp add: Let_def)
      qed
    qed
  qed
qed

subsection \<open>Inherited properties and stateful patterns\<close>

text \<open>
  \<open>obj[name]\<close> finds what an object literal inherits: a string rule named
  \<open>constructor\<close> rejects the empty object, whose \<open>constructor\<close> is a function.
\<close>

lemma check_inherited_property:
  "check (stringify_1_2 :: unit stringify) (object_literal [])
     [(''constructor'', empty_rule\<lparr>type_rule := Some ''string''\<rparr>)] False initial_state =
   (Inr False,
    initial_state\<lparr>error := ErrObject \<lparr>code = ''TYPE_INVALID'',
                                        message = [Text ''The value must be a string.''],
                                        name = Some ''constructor''\<rparr>\<rparr>)"
  by (simp add: check_def isObject_def Let_def empty_rule_def isSpecified_def Object_keys_def
                object_literal_def Object_prototype_def Object_prototype_functions_def
                get_prop_def get_rule_def check_type_def isString_def set_error_def)

text \<open>
  \<open>/a/g\<close> on the string \<open>a\<close>: the first \<open>test\<close> matches and moves \<open>lastIndex\<close> to 1,
  the second starts there and fails.
\<close>

lemma regexp_a_global_twice:
  "regexp_test regexp_a_global [0x61] initial_state =
     (True, initial_state\<lparr>lastIndex := (lastIndex initial_state)(0 := 1)\<rparr>) \<and>
   fst (regexp_test regexp_a_global [0x61]
          (initial_state\<lparr>lastIndex := (lastIndex initial_state)(0 := 1)\<rparr>)) = False"
  by (simp add: regexp_test_def regexp_a_global_def test_global_char_def initial_state_def)

subsection \<open>The first argument of check\<close>

text \<open>
  With \<open>required\<close> false, \<open>check\<close> returns on \<open>!obj\<close>: \<open>null\<close> is accepted against a
  rule set with a required field, and the state is not touched.
\<close>

theorem check_non_object_counterexample:
  "check stringify_1_2 Null
     [(''level'', \<lparr>required = True, min_rule = None, max_rule = None, minBytes = None,
                   maxBytes = None, pattern = None, enum_rule = None,
                   type_rule = Some ''integer''\<rparr>)]
     False initial_state = (Inr True :: unit reason + bool, initial_state)"
  by (simp add: check_def)

text \<open>
  C7, as the code has it. For every rule set, \<open>check\<close> on a value that is no object
  (not of type \<open>'object'\<close>, or \<open>null\<close>, or an array) returns true exactly when the object
  is not required and the value is falsy (\<open>undefined\<close>, \<open>null\<close>, \<open>false\<close>, 0, \<open>NaN\<close>
  or the empty string); it then evaluates no rule and leaves the state as it was.
  In every other case it returns false with the code \<open>MISSING_REQUIRED\<close>.
\<close>

theorem check_non_object:
  assumes "typeof obj \<noteq> ''object'' \<or> obj = Null \<or> Array_isArray obj"
  shows "check stringify obj rules required' st =
     (if \<not> required' \<and> \<not> truthy obj then (Inr True, st)
      else (Inr False, st\<lparr>error := ErrObject \<lparr>code = ''MISSING_REQUIRED'',
                                 message = [Text ''The first argument is missing.''],
                                 name = None\<rparr>\<rparr>))"
  using assms
  by (cases obj)
     (simp_all add: check_def isObject_def Let_def empty_rule_def isSpecified_def set_error_def)

theorem check_non_object_witness:
  "typeof (JNum (Fin 0)) \<noteq> ''object'' \<and>
   typeof (JStr []) \<noteq> ''object'' \<and>
   check (stringify_1_2 :: unit stringify) (JNum (Fin 0))
     [(''level'', empty_rule\<lparr>type_rule := Some ''integer''\<rparr>)] True initial_state =
     (Inr False, initial_state\<lparr>error := ErrObject \<lparr>code = ''MISSING_REQUIRED'',
                             message = [Text ''The first argument is missing.''],
                             name = None\<rparr>\<rparr>) \<and>
   check (stringify_1_2 :: unit stringify) Null
     [(''level'', empty_rule\<lparr>type_rule := Some ''integer''\<rparr>)] True initial_state =
     (Inr False, initial_state\<lparr>error := ErrObject \<lparr>code = ''MISSING_REQUIRED'',
                             message = [Text ''The first argument is missing.''],
                             name = None\<rparr>\<rparr>) \<and>
   check (stringify_1_2 :: unit stringify) (JStr [])
     [(''level'', empty_rule\<lparr>type_rule := Some ''integer''\<rparr>)] False initial_state =
     (Inr True, initial_state)"
  using check_non_object [where obj = "JNum (Fin 0)" and required' = True and st = initial_state
          and rules = "[(''level'', empty_rule\<lparr>type_rule := Some ''integer''\<rparr>)]"
          and stringify = "stringify_1_2 :: unit stringify"]
        check_non_object [where obj = Null and required' = True and st = initial_state
          and rules = "[(''level'', empty_rule\<lparr>type_rule := Some ''integer''\<rparr>)]"
          and stringify = "stringify_1_2 :: unit stringify"]
        check_non_object [where obj = "JStr []" and required' = False and st = initial_state
          and rules = "[(''level'', empty_rule\<lparr>type_rule := Some ''integer''\<rparr>)]"
          and stringify = "stringify_1_2 :: unit stringify"]
  by simp

subsection \<open>Integers\<close>

text \<open>
  C8. \<open>isInteger\<close> accepts a number exactly when \<open>isFloat\<close> accepts it under the same
  rule and the number is a finite whole number, and throws exactly what \<open>isFloat\<close>
  throws; a number that \<open>isFloat\<close> accepts and that has a fractional part is rejected
  with the code \<open>TYPE_INVALID\<close>. Under the bare integer rule, 2.0 is accepted and 2.5 is
  rejected with \<open>TYPE_INVALID\<close>.
\<close>

theorem isInteger_fraction:
  "fst (isInteger stringify (JNum x) rule name' st) =
     (case fst (isFloat stringify (JNum x) rule ''value'' (st\<lparr>error := ErrNull\<rparr>)) of
        Inl thrown \<Rightarrow> Inl thrown
      | Inr accepted \<Rightarrow> Inr (accepted \<and> (\<exists>n::int. x = Fin (of_int n))))
   \<and> (fst (isFloat stringify (JNum x) rule ''value'' (st\<lparr>error := ErrNull\<rparr>)) = Inr True \<and>
        \<not> (\<exists>n::int. x = Fin (of_int n)) \<longrightarrow>
        isInteger stringify (JNum x) rule name' st =
          (Inr False,
           st\<lparr>error := ErrObject \<lparr>code = ''TYPE_INVALID'',
                                    message = [Text (''The `'' @ name' @ ''` must be an integer.'')],
                                    name = None\<rparr>\<rparr>))
   \<and> isInteger stringify (JNum (Fin 2)) (empty_rule\<lparr>type_rule := Some ''integer''\<rparr>) name' st =
        (Inr True, st\<lparr>error := ErrNull\<rparr>)
   \<and> isInteger stringify (JNum (Fin (5 / 2))) (empty_rule\<lparr>type_rule := Some ''integer''\<rparr>) name' st =
        (Inr False,
         st\<lparr>error := ErrObject \<lparr>code = ''TYPE_INVALID'',
                                  message = [Text (''The `'' @ name' @ ''` must be an integer.'')],
                                  name = None\<rparr>\<rparr>)"
proof (intro conjI impI)
  obtain b st1 where f: "isFloat stringify (JNum x) rule ''value'' (st\<lparr>error := ErrNull\<rparr>) = (b, st1)"
    by (cases "isFloat stringify (JNum x) rule ''value'' (st\<lparr>error := ErrNull\<rparr>)")
  then show "fst (isInteger stringify (JNum x) rule name' st) =
     (case fst (isFloat stringify (JNum x) rule ''value'' (st\<lparr>error := ErrNull\<rparr>)) of
        Inl thrown \<Rightarrow> Inl thrown
      | Inr accepted \<Rightarrow> Inr (accepted \<and> (\<exists>n::int. x = Fin (of_int n))))"
    by (cases b)
       (auto simp add: isInteger_def Let_def isSpecified_def js_rem_one [symmetric]
             split: bool.splits)
next
  assume a: "fst (isFloat stringify (JNum x) rule ''value'' (st\<lparr>error := ErrNull\<rparr>)) = Inr True \<and>
        \<not> (\<exists>n::int. x = Fin (of_int n))"
  obtain st1 where f: "isFloat stringify (JNum x) rule ''value'' (st\<lparr>error := ErrNull\<rparr>) = (Inr True, st1)"
    using a by (cases "isFloat stringify (JNum x) rule ''value'' (st\<lparr>error := ErrNull\<rparr>)") simp
  then have "st1 = st\<lparr>error := ErrNull\<rparr>"
    by (auto simp add: isFloat_def enum_check_def isSpecified_def set_error_def
             split: if_splits option.splits sum.splits)
  with a f show "isInteger stringify (JNum x) rule name' st =
          (Inr False,
           st\<lparr>error := ErrObject \<lparr>code = ''TYPE_INVALID'',
                                    message = [Text (''The `'' @ name' @ ''` must be an integer.'')],
                                    name = None\<rparr>\<rparr>)"
    by (simp add: isInteger_def Let_def isSpecified_def set_error_def js_rem_one [symmetric])
next
  show "isInteger stringify (JNum (Fin 2)) (empty_rule\<lparr>type_rule := Some ''integer''\<rparr>) name' st =
        (Inr True, st\<lparr>error := ErrNull\<rparr>)"
    by (simp add: isInteger_def Let_def isFloat_def enum_check_def isSpecified_def empty_rule_def
                  below_def above_def js_eq_def trunc_def)
next
  show "isInteger stringify (JNum (Fin (5 / 2))) (empty_rule\<lparr>type_rule := Some ''integer''\<rparr>) name' st =
        (Inr False,
         st\<lparr>error := ErrObject \<lparr>code = ''TYPE_INVALID'',
                                  message = [Text (''The `'' @ name' @ ''` must be an integer.'')],
                                  name = None\<rparr>\<rparr>)"
    by (simp add: isInteger_def Let_def isFloat_def enum_check_def isSpecified_def empty_rule_def
                  below_def above_def js_eq_def trunc_five_halves set_error_def)
qed

theorem isInteger_fraction_witness:
  "fst (isFloat (stringify_1_2 :: unit stringify) (JNum (Fin (5 / 2)))
          (empty_rule\<lparr>min_rule := Some (Fin 0), max_rule := Some (Fin 100),
                       type_rule := Some ''integer''\<rparr>) ''value''
          (initial_state\<lparr>error := ErrNull\<rparr>)) = Inr True \<and>
   \<not> (\<exists>n::int. Fin (5 / 2) = Fin (of_int n)) \<and>
   isInteger (stringify_1_2 :: unit stringify) (JNum (Fin (5 / 2)))
     (empty_rule\<lparr>min_rule := Some (Fin 0), max_rule := Some (Fin 100),
                  type_rule := Some ''integer''\<rparr>) ''level'' initial_state =
     (Inr False,
      initial_state\<lparr>error := ErrObject \<lparr>code = ''TYPE_INVALID'',
                                          message = [Text ''The `level` must be an integer.''],
                                          name = None\<rparr>\<rparr>)"
proof -
  let ?r = "empty_rule\<lparr>min_rule := Some (Fin 0), max_rule := Some (Fin 100),
                        type_rule := Some ''integer''\<rparr>"
  let ?S = "stringify_1_2 :: unit stringify"
  have f: "fst (isFloat ?S (JNum (Fin (5 / 2))) ?r ''value'' (initial_state\<lparr>error := ErrNull\<rparr>)) =
             Inr True"
    by (simp add: isFloat_def enum_check_def isSpecified_def empty_rule_def below_def above_def
                  js_gt_def)
  have n: "\<not> (\<exists>n::int. Fin (5 / 2) = Fin (of_int n))"
    using js_rem_one [of "Fin (5 / 2)"] by (simp add: js_eq_def trunc_five_halves)
  from f n isInteger_fraction [where stringify = ?S and x = "Fin (5 / 2)" and rule = ?r
                                 and name' = "''level''" and st = initial_state]
  have "isInteger ?S (JNum (Fin (5 / 2))) ?r ''level'' initial_state =
     (Inr False,
      initial_state\<lparr>error := ErrObject \<lparr>code = ''TYPE_INVALID'',
                                          message = [Text ''The `level` must be an integer.''],
                                          name = None\<rparr>\<rparr>)"
    by simp
  with f n show ?thesis by blast
qed

subsection \<open>The state of the checker\<close>

text \<open>
  \<open>check\<close> writes the static error field: starting from \<open>undefined\<close>, a missing
  required field leaves an error object in it. Nor is its result a function of its
  arguments alone: with a rule that holds \<open>/a/g\<close>, the same call on the same arguments
  returns true the first time and false the second.
\<close>

theorem check_stateless_counterexample:
  "error initial_state = ErrUndefined \<and>
   error (snd (check (stringify_1_2 :: unit stringify) (object_literal [])
          [(''level'', \<lparr>required = True, min_rule = None, max_rule = None, minBytes = None,
                        maxBytes = None, pattern = None, enum_rule = None,
                        type_rule = Some ''integer''\<rparr>)]
          False initial_state)) =
     ErrObject \<lparr>code = ''MISSING_REQUIRED'',
                message = [Text ''The `level` is required.''],
                name = None\<rparr> \<and>
   fst (check (stringify_1_2 :: unit stringify) (object_literal [(''word'', JStr [0x61])])
          [(''word'', \<lparr>required = True, min_rule = None, max_rule = None, minBytes = None,
                       maxBytes = None, pattern = Some regexp_a_global, enum_rule = None,
                       type_rule = Some ''string''\<rparr>)]
          False initial_state) = Inr True \<and>
   fst (check (stringify_1_2 :: unit stringify) (object_literal [(''word'', JStr [0x61])])
          [(''word'', \<lparr>required = True, min_rule = None, max_rule = None, minBytes = None,
                       maxBytes = None, pattern = Some regexp_a_global, enum_rule = None,
                       type_rule = Some ''string''\<rparr>)]
          False
          (snd (check (stringify_1_2 :: unit stringify) (object_literal [(''word'', JStr [0x61])])
                  [(''word'', \<lparr>required = True, min_rule = None, max_rule = None,
                               minBytes = None, maxBytes = None,
                               pattern = Some regexp_a_global, enum_rule = None,
                               type_rule = Some ''string''\<rparr>)]
                  False initial_state))) = Inr False"
proof -
  let ?S = "stringify_1_2 :: unit stringify"
  let ?rules = "[(''word'', \<lparr>required = True, min_rule = None, max_rule = None, minBytes = None,
                       maxBytes = None, pattern = Some regexp_a_global, enum_rule = None,
                       type_rule = Some ''string''\<rparr>)]"
  let ?obj = "object_literal [(''word'', JStr [0x61])]"
  have first: "check ?S ?obj ?rules False initial_state =
      (Inr True, \<lparr>error = ErrNull, lastIndex = (\<lambda>a. 0)(0 := 1)\<rparr>)"
    by (simp add: check_def isObject_def Let_def empty_rule_def isSpecified_def Object_keys_def
                  object_literal_def get_prop_def get_rule_def check_type_def isString_def
                  below_def above_def enum_check_def regexp_test_def regexp_a_global_def
                  test_global_char_def initial_state_def)
  have second: "fst (check ?S ?obj ?rules False \<lparr>error = ErrNull, lastIndex = (\<lambda>a. 0)(0 := 1)\<rparr>) =
      Inr False"
    by (simp add: check_def isObject_def Let_def empty_rule_def isSpecified_def Object_keys_def
                  object_literal_def get_prop_def get_rule_def check_type_def isString_def
                  below_def above_def enum_check_def regexp_test_def regexp_a_global_def
                  test_global_char_def set_error_def)
  have field: "error (snd (check ?S (object_literal [])
          [(''level'', \<lparr>required = True, min_rule = None, max_rule = None, minBytes = None,
                        maxBytes = None, pattern = None, enum_rule = None,
                        type_rule = Some ''integer''\<rparr>)]
          False initial_state)) =
     ErrObject \<lparr>code = ''MISSING_REQUIRED'',
                message = [Text ''The `level` is required.''],
                name = None\<rparr>"
    by (simp add: check_def isObject_def Let_def empty_rule_def isSpecified_def Object_keys_def
                  object_literal_def Object_prototype_def Object_prototype_functions_def
                  get_prop_def get_rule_def set_error_def)
  have "error initial_state = ErrUndefined" by (simp add: initial_state_def)
  with first second field show ?thesis by simp
qed

text \<open>
  C9, as the code has it. \<open>check\<close> does not read the static error field: its result,
  and the \<open>lastIndex\<close> values it leaves, are the same whatever the field held before
  the call. The checker is not stateless: \<open>check\<close> writes that shared field, and after
  every call that returns false the field holds an error object.
\<close>

theorem check_result_pure:
  "fst (check stringify obj rules required' (st\<lparr>error := e\<rparr>)) =
     fst (check stringify obj rules required' st)
   \<and> lastIndex (snd (check stringify obj rules required' (st\<lparr>error := e\<rparr>))) =
       lastIndex (snd (check stringify obj rules required' st))
   \<and> (fst (check stringify obj rules required' st) = Inr False \<longrightarrow>
        (\<exists>x. error (snd (check stringify obj rules required' st)) = ErrObject x))"
proof -
  let ?names = "Object_keys rules"
  have 1: "fst (check stringify obj rules required' (st\<lparr>error := e\<rparr>)) =
     fst (check stringify obj rules required' st) \<and>
     lastIndex (snd (check stringify obj rules required' (st\<lparr>error := e\<rparr>))) =
       lastIndex (snd (check stringify obj rules required' st))"
    by (simp add: check_def isObject_def Let_def set_error_def)
  have 2: "fst (check stringify obj rules required' st) = Inr False \<longrightarrow>
        (\<exists>x. error (snd (check stringify obj rules required' st)) = ErrObject x)"
    using check_loop_False [of stringify obj rules ?names "st\<lparr>error := ErrNull\<rparr>"]
    by (auto simp add: check_def isObject_def Let_def set_error_def split: if_splits)
  from 1 2 show ?thesis by blast
qed

theorem check_result_pure_witness:
  "fst (check (stringify_1_2 :: unit stringify) (object_literal [(''level'', JNum (Fin (5 / 2)))])
          [(''level'', empty_rule\<lparr>type_rule := Some ''integer''\<rparr>)] False initial_state) = Inr False \<and>
   fst (check (stringify_1_2 :: unit stringify) (object_literal [(''level'', JNum (Fin (5 / 2)))])
          [(''level'', empty_rule\<lparr>type_rule := Some ''integer''\<rparr>)] False
          (initial_state\<lparr>error := ErrNull\<rparr>)) = Inr False \<and>
   (\<exists>x. error (snd (check (stringify_1_2 :: unit stringify)
                       (object_literal [(''level'', JNum (Fin (5 / 2)))])
                       [(''level'', empty_rule\<lparr>type_rule := Some ''integer''\<rparr>)] False
                       initial_state)) = ErrObject x)"
proof -
  let ?S = "stringify_1_2 :: unit stringify"
  let ?obj = "object_literal [(''level'', JNum (Fin (5 / 2)))]"
  let ?rules = "[(''level'', empty_rule\<lparr>type_rule := Some ''integer''\<rparr>)]"
  have f: "fst (check ?S ?obj ?rules False initial_state) = Inr False"
    by (simp add: check_def isObject_def Let_def empty_rule_def isSpecified_def Object_keys_def
                  object_literal_def get_prop_def get_rule_def set_error_def check_type_def
                  isInteger_def isFloat_def enum_check_def below_def above_def js_eq_def
                  trunc_five_halves)
  with check_result_pure [where stringify = ?S and obj = ?obj and rules = ?rules
                            and required' = False and st = initial_state and e = ErrNull]
  show ?thesis by simp
qed

subsection \<open>NaN\<close>

text \<open>
  A float rule with numeric bounds and a non-empty enumeration does not accept \<open>NaN\<close>:
  \<open>indexOf\<close> never finds it.
\<close>

theorem isFloat_NaN_counterexample:
  "fst (isFloat (stringify_1_2 :: unit stringify) (JNum NaN)
     \<lparr>required = False, min_rule = Some (Fin 0), max_rule = Some (Fin 10), minBytes = None,
      maxBytes = None, pattern = None, enum_rule = Some [JNum (Fin 1), JNum (Fin 2)],
      type_rule = Some ''float''\<rparr>
     ''value'' initial_state) = Inr False"
  by (simp add: isFloat_def enum_check_def isSpecified_def set_error_def stringify_1_2_def)

text \<open>
  C10, as the code has it. For every float rule with numeric \<open>min\<close> and \<open>max\<close> and no
  non-empty \<open>enum\<close>, \<open>isFloat\<close> accepts \<open>NaN\<close> whatever the bounds are and leaves the
  state as it was. With a non-empty \<open>enum\<close> it never accepts \<open>NaN\<close>: it builds the
  \<open>ENUM_UNMATCH\<close> error and returns false, unless \<open>JSON.stringify\<close> throws on the
  enumeration, and then that exception leaves \<open>isFloat\<close> with the state as it was.
\<close>

theorem isFloat_NaN:
  "(enum_rule rule = None \<or> enum_rule rule = Some [] \<longrightarrow>
      isFloat stringify (JNum NaN) (rule\<lparr>min_rule := Some lo, max_rule := Some hi\<rparr>) name' st =
        (Inr True, st))
   \<and> (\<forall>es. enum_rule rule = Some es \<and> es \<noteq> [] \<longrightarrow>
        isFloat stringify (JNum NaN) (rule\<lparr>min_rule := Some lo, max_rule := Some hi\<rparr>) name' st =
          (case stringify es of
             Inl thrown \<Rightarrow> (Inl thrown, st)
           | Inr json \<Rightarrow>
               (Inr False,
                st\<lparr>error := ErrObject
                   \<lparr>code = ''ENUM_UNMATCH'',
                    message = [Text (''The `'' @ name' @ ''` must be any one of '' @ json @ ''.'')],
                    name = None\<rparr>\<rparr>)))"
  by (auto simp add: isFloat_def enum_check_def isSpecified_def set_error_def split: sum.splits)

theorem isFloat_NaN_witness:
  "enum_rule (empty_rule\<lparr>type_rule := Some ''float''\<rparr>) = None \<and>
   isFloat (stringify_1_2 :: unit stringify) (JNum NaN)
     (empty_rule\<lparr>type_rule := Some ''float'', min_rule := Some (Fin 0), max_rule := Some (Fin 10)\<rparr>)
     ''value'' initial_state = (Inr True, initial_state) \<and>
   enum_rule (empty_rule\<lparr>enum_rule := Some [JBigInt 10]\<rparr>) = Some [JBigInt 10] \<and>
   [JBigInt 10] \<noteq> [] \<and>
   isFloat (stringify_throws :: unit stringify) (JNum NaN)
     (empty_rule\<lparr>enum_rule := Some [JBigInt 10], min_rule := Some (Fin 0), max_rule := Some (Fin 10)\<rparr>)
     ''value'' initial_state = (Inl (Raised TypeError), initial_state)"
  using isFloat_NaN [where rule = "empty_rule\<lparr>type_rule := Some ''float''\<rparr>"
                        and lo = "Fin 0" and hi = "Fin 10" and name' = "''value''"
                        and st = initial_state and stringify = "stringify_1_2 :: unit stringify"]
        isFloat_NaN [where rule = "empty_rule\<lparr>enum_rule := Some [JBigInt 10]\<rparr>"
                        and lo = "Fin 0" and hi = "Fin 10" and name' = "''value''"
                        and st = initial_state and stringify = "stringify_throws :: unit stringify"]
  by (simp add: empty_rule_def stringify_throws_def)

end
